theory Spec2Isabelle
  imports Main
begin

section \<open>JavaScript values\<close>

text \<open>
  The adapter (\<^verbatim>\<open>lottieAdapter.js\<close>) reads JSON documents of unknown shape, so
  the values it handles are modelled as a datatype of JSON-born JavaScript values.
  A number is given by the integer literal it is read from (identifiers, totals, page
  numbers): \<open>JNum i\<close> is the double nearest to \<open>i\<close>; fractions and NaN are outside
  the model.  An object lists its own properties in the order \<^verbatim>\<open>Object.keys\<close>
  enumerates them.
\<close>

datatype jsval =
    JUndefined
  | JNull
  | JBool bool
  | JNum int
  | JStr string
  | JArr "jsval list"
  | JObj "(string \<times> jsval) list"

text \<open>What the adapter can throw; one constructor per \<^verbatim>\<open>throw\<close> site or runtime error.\<close>

datatype error =
    ConfigurationError
    \<comment> \<open>\<^verbatim>\<open>LOTTIE_API_KEY not configured in env\<close>\<close>
  | FetchError string
    \<comment> \<open>\<^verbatim>\<open>fetch\<close> rejected: no HTTP response was received\<close>
  | SearchFailed nat string
    \<comment> \<open>\<^verbatim>\<open>LottieFiles search failed: ${res.status} ${text}\<close>, with \<^verbatim>\<open>err.status\<close>\<close>
  | DetailFetchFailed nat string
    \<comment> \<open>\<^verbatim>\<open>Lottie detail fetch failed ${detailRes.status}: ${txt}\<close>, with \<^verbatim>\<open>e.status\<close>\<close>
  | InvalidJSON string
    \<comment> \<open>\<^verbatim>\<open>res.json()\<close> rejected\<close>
  | TypeError
    \<comment> \<open>a property of \<^verbatim>\<open>null\<close>/\<^verbatim>\<open>undefined\<close> was read, or a non-function was called\<close>
  | NoDownloadableAsset
    \<comment> \<open>\<^verbatim>\<open>No downloadable JSON/url discovered in provider metadata...\<close>\<close>
  | DownloadFailed nat
    \<comment> \<open>\<^verbatim>\<open>download failed ${r.status}\<close>\<close>
  | InvalidPayload string
    \<comment> \<open>\<^verbatim>\<open>Downloaded file is not valid JSON: \<close> followed by the parser's message\<close>
  | FsError string
    \<comment> \<open>\<^verbatim>\<open>fs.mkdir\<close> or \<^verbatim>\<open>fs.writeFile\<close> rejected\<close>
  | S3Error string
    \<comment> \<open>\<^verbatim>\<open>s3.send\<close> or \<^verbatim>\<open>getSignedUrl\<close> rejected\<close>

text \<open>Truthiness, \<^verbatim>\<open>a || b\<close> and \<^verbatim>\<open>a && b\<close> (the value of the operand that decides).\<close>

fun truthy :: "jsval \<Rightarrow> bool" where
  "truthy JUndefined = False"
| "truthy JNull = False"
| "truthy (JBool b) = b"
| "truthy (JNum n) = (n \<noteq> 0)"
| "truthy (JStr s) = (s \<noteq> [])"
| "truthy (JArr xs) = True"
| "truthy (JObj kvs) = True"

definition js_or :: "jsval \<Rightarrow> jsval \<Rightarrow> jsval" where
  "js_or a b = (if truthy a then a else b)"

definition js_and :: "jsval \<Rightarrow> jsval \<Rightarrow> jsval" where
  "js_and a b = (if truthy a then b else a)"

fun nullish :: "jsval \<Rightarrow> bool" where
  "nullish JUndefined = True"
| "nullish JNull = True"
| "nullish v = False"

text \<open>
  \<^verbatim>\<open>v.k\<close> for a \<open>v\<close> that is neither \<^verbatim>\<open>null\<close> nor \<^verbatim>\<open>undefined\<close>: an
  object yields its own property or \<^verbatim>\<open>undefined\<close>; a boolean, number, string or
  array yields \<^verbatim>\<open>undefined\<close>, since none of the property names the adapter reads
  (\<^verbatim>\<open>id\<close>, \<^verbatim>\<open>title\<close>, \<^verbatim>\<open>url\<close>, ...) is defined on a prototype.  Reading
  a property of \<^verbatim>\<open>null\<close> or \<^verbatim>\<open>undefined\<close> throws; every caller below either
  tests \<open>nullish\<close> first and returns \<open>TypeError\<close>, or reads under a truthiness
  guard as the source does, so the value \<open>get\<close> gives there is never used.
\<close>

fun get :: "jsval \<Rightarrow> string \<Rightarrow> jsval" where
  "get (JObj kvs) k = (case map_of kvs k of None \<Rightarrow> JUndefined | Some v \<Rightarrow> v)"
| "get v k = JUndefined"

text \<open>\<^verbatim>\<open>v?.k\<close>\<close>

definition opt_get :: "jsval \<Rightarrow> string \<Rightarrow> jsval" where
  "opt_get v k = (if nullish v then JUndefined else get v k)"

subsection \<open>String coercion\<close>

text \<open>
  \<^verbatim>\<open>Number::toString\<close> for the Number read from an integer literal.  \<open>JNum i\<close>
  stands for the double nearest to \<open>i\<close> (ties to the even mantissa), which is \<open>i\<close>
  itself up to \<open>2^53\<close>; from \<open>2^1024\<close> on it is \<^verbatim>\<open>Infinity\<close>.  The digits printed
  are the shortest decimal that reads back as that double, the closest one when several
  have that length; from \<open>10^21\<close> on they are printed in exponent form.
\<close>

fun digits :: "nat \<Rightarrow> string" where
  "digits n = (if n < 10 then [char_of (48 + n)] else digits (n div 10) @ [char_of (48 + n mod 10)])"

fun bitlen :: "nat \<Rightarrow> nat" where
  "bitlen n = (if n = 0 then 0 else Suc (bitlen (n div 2)))"

definition to_double :: "nat \<Rightarrow> nat" where
  "to_double n =
     (if n < 2 ^ 53 then n
      else
        let e = bitlen n - 53; q = n div 2 ^ e; r = n mod 2 ^ e; h = 2 ^ (e - 1)
        in if h < r \<or> (r = h \<and> odd q) then (q + 1) * 2 ^ e else q * 2 ^ e)"

text \<open>
  Whether the integer \<open>d\<close> reads back as the double \<open>v \<ge> 2^53\<close>: it lies strictly
  between the midpoints to the neighbouring doubles, or on a midpoint when the mantissa
  of \<open>v\<close> is even.  The gap below a power of two is half the gap above it; all
  quantities are scaled by 4 to stay integral.
\<close>

definition rounds_to :: "nat \<Rightarrow> nat \<Rightarrow> bool" where
  "rounds_to v d =
     (let e = bitlen v - 53; m = v div 2 ^ e; up = 2 ^ (e + 1);
          down = (if m = 2 ^ 52 then 2 ^ e else 2 ^ (e + 1))
      in (4 * v < 4 * d + down \<and> 4 * d < 4 * v + up)
         \<or> (even m \<and> (4 * d + down = 4 * v \<or> 4 * d = 4 * v + up)))"

text \<open>The decimal of \<open>k\<close> significant digits that reads back as \<open>v\<close>, if there is one.\<close>

definition rounded_to_digits :: "nat \<Rightarrow> nat \<Rightarrow> nat option" where
  "rounded_to_digits v k =
     (let p = length (digits v) - k; s = v div 10 ^ p; c0 = s * 10 ^ p; c1 = c0 + 10 ^ p
      in if rounds_to v c0 \<and> rounds_to v c1
         then (if v - c0 < c1 - v then Some c0
               else if c1 - v < v - c0 then Some c1
               else if even s then Some c0 else Some c1)
         else if rounds_to v c0 then Some c0
         else if rounds_to v c1 then Some c1
         else None)"

definition shortest_decimal :: "nat \<Rightarrow> nat" where
  "shortest_decimal v =
     (case List.map_filter (rounded_to_digits v) [1..<Suc (length (digits v))] of
        [] \<Rightarrow> v
      | c # _ \<Rightarrow> c)"

definition exponent_form :: "nat \<Rightarrow> string" where
  "exponent_form c =
     (case rev (dropWhile (\<lambda>d. d = CHR ''0'') (rev (digits c))) of
        [] \<Rightarrow> ''0''
      | [d] \<Rightarrow> [d]
      | d # ds \<Rightarrow> d # CHR ''.'' # ds)
     @ ''e+'' @ digits (length (digits c) - 1)"

definition show_nat :: "nat \<Rightarrow> string" where
  "show_nat n =
     (if n < 2 ^ 53 then digits n
      else if 2 ^ 1024 \<le> to_double n then ''Infinity''
      else if shortest_decimal (to_double n) < 10 ^ 21 then digits (shortest_decimal (to_double n))
      else exponent_form (shortest_decimal (to_double n)))"

definition show_int :: "int \<Rightarrow> string" where
  "show_int i = (if i < 0 then CHR ''-'' # show_nat (nat (- i)) else show_nat (nat i))"

text \<open>
  \<^verbatim>\<open>String(v)\<close> and \<^verbatim>\<open>`${v}`\<close>.  An array is joined with commas, \<^verbatim>\<open>null\<close> and
  \<^verbatim>\<open>undefined\<close> elements giving the empty string.  An object is
  \<^verbatim>\<open>[object Object]\<close>, unless it has an own property \<^verbatim>\<open>toString\<close>: coming from
  JSON that property is not callable, \<^verbatim>\<open>Object.prototype.valueOf\<close> returns the
  object itself, and the conversion throws a TypeError.
\<close>

fun to_string :: "jsval \<Rightarrow> error + string"
  and join_elems :: "jsval list \<Rightarrow> error + string" where
  "to_string JUndefined = Inr ''undefined''"
| "to_string JNull = Inr ''null''"
| "to_string (JBool b) = Inr (if b then ''true'' else ''false'')"
| "to_string (JNum n) = Inr (show_int n)"
| "to_string (JStr s) = Inr s"
| "to_string (JArr xs) = join_elems xs"
| "to_string (JObj kvs) =
     (if ''toString'' \<in> set (map fst kvs) then Inl TypeError else Inr ''[object Object]'')"
| "join_elems [] = Inr []"
| "join_elems (x # xs) =
     (case (if nullish x then Inr [] else to_string x) of
        Inl e \<Rightarrow> Inl e
      | Inr s \<Rightarrow>
          (if xs = [] then Inr s
           else (case join_elems xs of Inl e \<Rightarrow> Inl e | Inr t \<Rightarrow> Inr (s @ '','' @ t))))"

section \<open>The world the adapter acts on\<close>

text \<open>
  Effects are explicit: every operation takes the world and returns it updated.
  The world holds the timer clock, the log of HTTP requests, the local file system and
  the objects put to S3.
\<close>

record s3_object =
  Body :: string
  ContentType :: string
  ContentEncoding :: string
  ACL :: string

record world =
  clock :: nat
  requests :: "string list"
  dirs :: "string set"
  files :: "string \<rightharpoonup> string"
  objects :: "(jsval \<times> string) \<rightharpoonup> s3_object"

text \<open>\<^verbatim>\<open>await new Promise(r => setTimeout(r, ms))\<close>\<close>

definition sleep :: "nat \<Rightarrow> 'z world_scheme \<Rightarrow> 'z world_scheme" where
  "sleep ms w = w\<lparr>clock := clock w + ms\<rparr>"

section \<open>The retry helper\<close>

text \<open>
  \<^verbatim>\<open>
  async function retry(fn, times = 3, delayMs = 300) {
    let attempt = 0;
    while (true) {
      try { return await fn(); }
      catch (err) {
        attempt++;
        if (attempt >= times) throw err;
        await new Promise(r => setTimeout(r, delayMs * attempt));
      }
    }
  }
  \<close>
  The operation \<open>fn\<close> is a state transformer that returns \<open>Inl err\<close> when it
  throws.  The loop is the recursion \<open>retry_loop\<close> on the local \<open>attempt\<close>; it ends
  because each further round needs \<open>attempt + 1 < times\<close>
  (the parameter is written \<open>times'\<close>, \<open>times\<close> being HOL's multiplication).
\<close>

function retry_loop ::
  "('z world_scheme \<Rightarrow> ('e + 'a) \<times> 'z world_scheme) \<Rightarrow> int \<Rightarrow> nat \<Rightarrow> nat \<Rightarrow>
   'z world_scheme \<Rightarrow> ('e + 'a) \<times> 'z world_scheme" where
  "retry_loop fn times' delayMs attempt w =
     (case fn w of
        (Inr v, w') \<Rightarrow> (Inr v, w')
      | (Inl err, w') \<Rightarrow>
          (if times' \<le> int (Suc attempt) then (Inl err, w')
           else retry_loop fn times' delayMs (Suc attempt) (sleep (delayMs * Suc attempt) w')))"
  by pat_completeness auto
termination
  by (relation "measure (\<lambda>(fn, n, delayMs, attempt, w). nat (n - int attempt))") auto

definition retry ::
  "('z world_scheme \<Rightarrow> ('e + 'a) \<times> 'z world_scheme) \<Rightarrow> int \<Rightarrow> nat \<Rightarrow>
   'z world_scheme \<Rightarrow> ('e + 'a) \<times> 'z world_scheme" where
  "retry fn times' delayMs w = retry_loop fn times' delayMs 0 w"

section \<open>Configuration, library functions and the outside world\<close>

text \<open>
  \<open>env\<close> collects what the module reads but does not define: the process
  environment, the library functions it calls (\<^verbatim>\<open>encodeURIComponent\<close>,
  \<^verbatim>\<open>JSON.parse\<close>, \<^verbatim>\<open>JSON.stringify\<close>, \<^verbatim>\<open>zlib.gzip\<close>, the SHA-1 hex digest,
  \<^verbatim>\<open>path.join\<close>, \<^verbatim>\<open>Date.prototype.toISOString\<close>), and how the outside world
  answers: \<open>network env n url\<close> is the outcome of the \<open>n\<close>-th \<^verbatim>\<open>fetch\<close> of the
  run when it asks for \<open>url\<close>; \<open>mkdir\<close>, \<open>writeFile\<close>, \<open>s3_send\<close> and
  \<open>getSignedUrl\<close> give \<open>Some message\<close> when the call rejects.  \<open>s3\<close> says whether
  the module built its S3 client when it was loaded.
\<close>

datatype fetch_outcome = Rejects string | Responds nat string

record response =
  status :: nat
  body :: string

record env =
  LOTTIE_API_KEY :: "string option"
  LOTTIE_API_BASE :: "string option"
  S3_BUCKET :: "string option"
  AWS_REGION :: "string option"
  s3 :: bool
  dirname :: string
  encodeURIComponent :: "string \<Rightarrow> string"
  JSON_parse :: "string \<Rightarrow> string + jsval"
  JSON_stringify :: "jsval \<Rightarrow> string"
  gzip :: "string \<Rightarrow> string"
  sha1_hex :: "string \<Rightarrow> string"
  path_join :: "string list \<Rightarrow> string"
  toISOString :: "nat \<Rightarrow> string"
  network :: "nat \<Rightarrow> string \<Rightarrow> fetch_outcome"
  mkdir :: "string \<Rightarrow> string option"
  writeFile :: "string \<Rightarrow> string option"
  s3_send :: "jsval \<times> string \<Rightarrow> string option"
  getSignedUrl :: "jsval \<times> string \<Rightarrow> string option"

text \<open>An environment variable is truthy when it is set and not empty.\<close>

definition env_truthy :: "string option \<Rightarrow> bool" where
  "env_truthy v = (case v of None \<Rightarrow> False | Some s \<Rightarrow> s \<noteq> [])"

definition env_or :: "string option \<Rightarrow> string \<Rightarrow> string" where
  "env_or v d = (case v of None \<Rightarrow> d | Some s \<Rightarrow> if s \<noteq> [] then s else d)"

definition LOTTIE_BASE :: "env \<Rightarrow> string" where
  "LOTTIE_BASE env = env_or (LOTTIE_API_BASE env) ''https://api.lottiefiles.com/v2''"

definition DEFAULT_CACHE_DIR :: "env \<Rightarrow> string" where
  "DEFAULT_CACHE_DIR env = path_join env [dirname env, ''cache'', ''lottie'']"

text \<open>\<^verbatim>\<open>res.ok\<close>: the status is in the range 200-299.\<close>

definition ok :: "response \<Rightarrow> bool" where
  "ok res = (200 \<le> status res \<and> status res < 300)"

text \<open>
  \<^verbatim>\<open>fetch(url, { headers: { Authorization: `Bearer ${key}` } })\<close>: the request is
  logged, and the promise rejects only when no response arrives; an HTTP error status
  is a response like any other.
\<close>

definition fetch :: "env \<Rightarrow> string \<Rightarrow> 'z world_scheme \<Rightarrow> (error + response) \<times> 'z world_scheme" where
  "fetch env u w =
     (case network env (length (requests w)) u of
        Rejects msg \<Rightarrow> (Inl (FetchError msg), w\<lparr>requests := requests w @ [u]\<rparr>)
      | Responds st b \<Rightarrow> (Inr \<lparr>status = st, body = b\<rparr>, w\<lparr>requests := requests w @ [u]\<rparr>))"

section \<open>Search\<close>

record result_meta =
  duration_ms :: jsval
  frames :: jsval

record search_result =
  provider :: string
  providerId :: string
  title :: jsval
  type' :: string
  thumbnail :: jsval
  preview :: jsval
  license :: jsval
  tags :: jsval
  score :: jsval
  meta :: result_meta

record search_response =
  query :: string
  page :: jsval
  per_page :: jsval
  total :: jsval
  results :: "search_result list"

text \<open>
  The callback of \<^verbatim>\<open>(json.data || []).map(item => ...)\<close> (lines 65-82).  Reading
  \<^verbatim>\<open>item.id\<close> throws when the item is \<^verbatim>\<open>null\<close>; \<^verbatim>\<open>String(...)\<close> can throw.
\<close>

definition normalize_item :: "jsval \<Rightarrow> error + search_result" where
  "normalize_item item =
     (if nullish item then Inl TypeError
      else
        (case to_string
                (js_or (js_or (js_or (get item ''id'') (get item ''_id'')) (get item ''uid''))
                   (get item ''uuid'')) of
           Inl e \<Rightarrow> Inl e
         | Inr pid \<Rightarrow>
             Inr \<lparr>provider = ''lottiefiles'',
                  providerId = pid,
                  title = js_or (js_or (get item ''title'') (get item ''name'')) (JStr ''Lottie''),
                  type' = ''lottie'',
                  thumbnail =
                    js_or (js_or (get item ''thumbnail'') (get item ''preview''))
                      (js_and (get item ''images'') (get (get item ''images'') ''thumbnail'')),
                  preview =
                    js_or (js_or (get item ''preview'')
                             (opt_get (opt_get (get item ''files'') ''json'') ''url''))
                      JNull,
                  license =
                    js_or (js_or (js_and (get item ''license'') (get (get item ''license'') ''name''))
                             (get item ''license''))
                      (JStr ''unknown''),
                  tags =
                    js_or (js_or (get item ''tags'')
                             (js_and (get item ''meta'') (get (get item ''meta'') ''tags'')))
                      (JArr []),
                  score = JNum 1,
                  meta =
                    \<lparr>duration_ms =
                       js_or (js_or (get item ''duration_ms'') (get item ''duration'')) JNull,
                     frames = js_or (get item ''frames'') JNull\<rparr>\<rparr>))"

text \<open>\<^verbatim>\<open>Array.prototype.map\<close> with that callback: the first throw ends the call.\<close>

fun map_items :: "jsval list \<Rightarrow> error + search_result list" where
  "map_items [] = Inr []"
| "map_items (item # rest) =
     (case normalize_item item of
        Inl e \<Rightarrow> Inl e
      | Inr r \<Rightarrow> (case map_items rest of Inl e \<Rightarrow> Inl e | Inr rs \<Rightarrow> Inr (r # rs)))"

text \<open>
  Lines 63-89, from the parsed body on.  \<^verbatim>\<open>json.data\<close> throws on a \<^verbatim>\<open>null\<close>
  body; a truthy \<^verbatim>\<open>json.data\<close> that is not an array has no \<^verbatim>\<open>map\<close> method.
\<close>

definition normalize_response :: "jsval \<Rightarrow> string \<Rightarrow> jsval \<Rightarrow> jsval \<Rightarrow> error + search_response" where
  "normalize_response json q pg pp =
     (if nullish json then Inl TypeError
      else
        (case js_or (get json ''data'') (JArr []) of
           JArr raw \<Rightarrow>
             (case map_items raw of
                Inl e \<Rightarrow> Inl e
              | Inr items \<Rightarrow>
                  Inr \<lparr>query = q,
                       page = js_or (get json ''page'') pg,
                       per_page = js_or (get json ''per_page'') pp,
                       total = js_or (get json ''total'') (JNum (int (length items))),
                       results = items\<rparr>)
         | _ \<Rightarrow> Inl TypeError))"

text \<open>
  \<^verbatim>\<open>async function searchLottieFiles(query, { page = 1, per_page = 24 } = {})\<close>.
  The second argument is any value: \<^verbatim>\<open>undefined\<close> gives the default object,
  \<^verbatim>\<open>null\<close> cannot be destructured, and a missing \<^verbatim>\<open>page\<close> or \<^verbatim>\<open>per_page\<close>
  takes its default.
\<close>

text \<open>Line 55, with \<^verbatim>\<open>page\<close> and \<^verbatim>\<open>per_page\<close> already coerced to strings.\<close>

definition search_url :: "env \<Rightarrow> string \<Rightarrow> string \<Rightarrow> string \<Rightarrow> string" where
  "search_url env q pgs pps =
     LOTTIE_BASE env @ ''/animations?query='' @ encodeURIComponent env q
       @ ''&page='' @ pgs @ ''&per_page='' @ pps"

definition default_param :: "jsval \<Rightarrow> jsval \<Rightarrow> jsval" where
  "default_param v d = (if v = JUndefined then d else v)"

definition searchLottieFiles ::
  "env \<Rightarrow> string \<Rightarrow> jsval \<Rightarrow> 'z world_scheme \<Rightarrow> (error + search_response) \<times> 'z world_scheme" where
  "searchLottieFiles env q options w =
     (let opts = default_param options (JObj []) in
      if opts = JNull then (Inl TypeError, w)
      else
        let pg = default_param (get opts ''page'') (JNum 1);
            pp = default_param (get opts ''per_page'') (JNum 24)
        in
        if \<not> env_truthy (LOTTIE_API_KEY env) then (Inl ConfigurationError, w)
        else
          (case to_string pg of
             Inl e \<Rightarrow> (Inl e, w)
           | Inr pgs \<Rightarrow>
               (case to_string pp of
                  Inl e \<Rightarrow> (Inl e, w)
                | Inr pps \<Rightarrow>
                    (case retry (fetch env (search_url env q pgs pps)) 3 300 w of
                       (Inl e, w1) \<Rightarrow> (Inl e, w1)
                     | (Inr res, w1) \<Rightarrow>
                         if \<not> ok res then (Inl (SearchFailed (status res) (body res)), w1)
                         else
                           (case JSON_parse env (body res) of
                              Inl msg \<Rightarrow> (Inl (InvalidJSON msg), w1)
                            | Inr json \<Rightarrow> (normalize_response json q pg pp, w1))))))"

section \<open>Import\<close>

subsection \<open>Locating the asset (lines 119-141)\<close>

text \<open>
  \<^verbatim>\<open>Object.keys(v).map(k => v[k])\<close> for a truthy \<open>v\<close>: the own property values of
  an object, the elements of an array, the one-character strings of a string, and
  nothing for a number or a boolean.
\<close>

fun entries :: "jsval \<Rightarrow> jsval list" where
  "entries (JObj kvs) = map (\<lambda>k. get (JObj kvs) k) (map fst kvs)"
| "entries (JArr xs) = xs"
| "entries (JStr s) = map (\<lambda>c. JStr [c]) s"
| "entries v = []"

text \<open>\<^verbatim>\<open>if (v) candidateUrls.push(v)\<close>\<close>

definition push_if :: "jsval \<Rightarrow> jsval list" where
  "push_if v = (if truthy v then [v] else [])"

text \<open>The body of the \<^verbatim>\<open>for\<close> loop over \<^verbatim>\<open>detail.files\<close> for one entry.\<close>

definition entry_urls :: "jsval \<Rightarrow> jsval list" where
  "entry_urls entry =
     (if \<not> truthy entry then []
      else push_if (get entry ''url'') @ push_if (get entry ''download_url''))"

definition candidateUrls :: "jsval \<Rightarrow> jsval list" where
  "candidateUrls detail =
     (if truthy (get detail ''files'')
      then concat (map entry_urls (entries (get detail ''files'')))
      else [])
     @ push_if (get detail ''animation_url'')
     @ push_if (get detail ''download_url'')
     @ push_if (get detail ''preview'')"

text \<open>
  \<^verbatim>\<open>[...new Set(candidateUrls)]\<close>: a \<^verbatim>\<open>Set\<close> keeps the first occurrence of each
  value, in insertion order.  Primitives are compared by value (numbers as doubles);
  two arrays or objects pushed from different places of the parsed document are
  different references and never equal.
\<close>

fun same_value_zero :: "jsval \<Rightarrow> jsval \<Rightarrow> bool" where
  "same_value_zero (JArr xs) b = False"
| "same_value_zero (JObj kvs) b = False"
| "same_value_zero (JNum x) (JNum y) =
     ((x < 0 \<longleftrightarrow> y < 0) \<and> to_double (nat \<bar>x\<bar>) = to_double (nat \<bar>y\<bar>))"
| "same_value_zero a b = (a = b)"

definition set_add :: "jsval list \<Rightarrow> jsval \<Rightarrow> jsval list" where
  "set_add seen v = (if list_ex (\<lambda>u. same_value_zero u v) seen then seen else seen @ [v])"

definition new_Set :: "jsval list \<Rightarrow> jsval list" where
  "new_Set vs = foldl set_add [] vs"

text \<open>
  Lines 121-138: the candidate list, or the error when it is empty.
  \<^verbatim>\<open>detail.files\<close> throws when the detail document is \<^verbatim>\<open>null\<close>.
\<close>

definition locate :: "jsval \<Rightarrow> error + jsval list" where
  "locate detail =
     (if nullish detail then Inl TypeError
      else
        let urls = filter truthy (new_Set (candidateUrls detail)) in
        if urls = [] then Inl NoDownloadableAsset else Inr urls)"

definition ends_with :: "string \<Rightarrow> string \<Rightarrow> bool" where
  "ends_with s suffix =
     (length suffix \<le> length s \<and> drop (length s - length suffix) s = suffix)"

fun str_includes :: "string \<Rightarrow> string \<Rightarrow> bool" where
  "str_includes [] sub = (sub = [])"
| "str_includes (c # cs) sub = (take (length sub) (c # cs) = sub \<or> str_includes cs sub)"

text \<open>
  \<^verbatim>\<open>urls.find(u => u.endsWith('.json') || u.includes('json'))\<close>: the callback
  throws on the first candidate it meets that is not a string.
\<close>

fun find_json :: "jsval list \<Rightarrow> error + string option" where
  "find_json [] = Inr None"
| "find_json (JStr u # us) =
     (if ends_with u ''.json'' \<or> str_includes u ''json'' then Inr (Some u) else find_json us)"
| "find_json (v # us) = Inl TypeError"

text \<open>
  Line 141, \<^verbatim>\<open>... || urls[0]\<close>.  When \<open>find_json\<close> finds nothing every candidate
  is a string; the list is not empty after \<open>locate\<close>, so the last case is never
  reached there.
\<close>

definition pick_jsonUrl :: "jsval list \<Rightarrow> error + string" where
  "pick_jsonUrl urls =
     (case find_json urls of
        Inl e \<Rightarrow> Inl e
      | Inr (Some u) \<Rightarrow> Inr u
      | Inr None \<Rightarrow> (case urls of JStr u # _ \<Rightarrow> Inr u | _ \<Rightarrow> Inl TypeError))"

subsection \<open>Download and processing (lines 143-165)\<close>

text \<open>Here the status check is inside the retried operation.\<close>

definition download_once :: "env \<Rightarrow> string \<Rightarrow> 'z world_scheme \<Rightarrow> (error + string) \<times> 'z world_scheme" where
  "download_once env jsonUrl w =
     (case fetch env jsonUrl w of
        (Inl e, w') \<Rightarrow> (Inl e, w')
      | (Inr r, w') \<Rightarrow> if \<not> ok r then (Inl (DownloadFailed (status r)), w') else (Inr (body r), w'))"

definition download :: "env \<Rightarrow> string \<Rightarrow> 'z world_scheme \<Rightarrow> (error + string) \<times> 'z world_scheme" where
  "download env jsonUrl w = retry (download_once env jsonUrl) 3 400 w"

record processed =
  minified :: string
  gz :: string
  hash :: string

text \<open>Lines 151-164: parse, minify, gzip, hash the compressed bytes.\<close>

definition process_payload :: "env \<Rightarrow> string \<Rightarrow> error + processed" where
  "process_payload env animBuffer =
     (case JSON_parse env animBuffer of
        Inl msg \<Rightarrow> Inl (InvalidPayload msg)
      | Inr parsed \<Rightarrow>
          Inr \<lparr>minified = JSON_stringify env parsed,
               gz = gzip env (JSON_stringify env parsed),
               hash = take 12 (sha1_hex env (gzip env (JSON_stringify env parsed)))\<rparr>)"

text \<open>Line 165, \<^verbatim>\<open>`lottie_${providerId}_${hash}.json.gz`\<close>.\<close>

definition outName :: "string \<Rightarrow> string \<Rightarrow> string" where
  "outName pid h = ''lottie_'' @ pid @ ''_'' @ h @ ''.json.gz''"

subsection \<open>Storage (lines 166-197)\<close>

text \<open>Lines 166-168: the local write, before any test of the S3 configuration.\<close>

definition store_local ::
  "env \<Rightarrow> string \<Rightarrow> string \<Rightarrow> 'z world_scheme \<Rightarrow> (error + string) \<times> 'z world_scheme" where
  "store_local env out data w =
     (let localPath = path_join env [DEFAULT_CACHE_DIR env, out] in
      case mkdir env (DEFAULT_CACHE_DIR env) of
        Some msg \<Rightarrow> (Inl (FsError msg), w)
      | None \<Rightarrow>
          (case writeFile env localPath of
             Some msg \<Rightarrow> (Inl (FsError msg), w\<lparr>dirs := insert (DEFAULT_CACHE_DIR env) (dirs w)\<rparr>)
           | None \<Rightarrow>
               (Inr localPath,
                w\<lparr>dirs := insert (DEFAULT_CACHE_DIR env) (dirs w),
                  files := (files w)(localPath \<mapsto> data)\<rparr>)))"

text \<open>
  Lines 171-197: the upload and the asset's URL.  \<^verbatim>\<open>options.targetS3Bucket\<close> is
  read only in the S3 branch and throws when \<^verbatim>\<open>options\<close> is \<^verbatim>\<open>null\<close>.
\<close>

definition upload ::
  "env \<Rightarrow> jsval \<Rightarrow> string \<Rightarrow> string \<Rightarrow> string \<Rightarrow> 'z world_scheme \<Rightarrow>
   (error + string) \<times> 'z world_scheme" where
  "upload env opts out data localPath w =
     (if s3 env \<and> env_truthy (S3_BUCKET env) then
        if nullish opts then (Inl TypeError, w)
        else
          let bucket = js_or (get opts ''targetS3Bucket'') (JStr (env_or (S3_BUCKET env) []));
              keyName = ''lottie/'' @ out
          in
          (case s3_send env (bucket, keyName) of
             Some msg \<Rightarrow> (Inl (S3Error msg), w)
           | None \<Rightarrow>
               let w' = w\<lparr>objects := (objects w)((bucket, keyName) \<mapsto>
                            \<lparr>Body = data, ContentType = ''application/json'',
                             ContentEncoding = ''gzip'', ACL = ''public-read''\<rparr>)\<rparr>
               in
               (case getSignedUrl env (bucket, keyName) of
                  Some msg \<Rightarrow> (Inl (S3Error msg), w')
                | None \<Rightarrow>
                    (case to_string bucket of
                       Inl e \<Rightarrow> (Inl e, w')
                     | Inr b \<Rightarrow>
                         (Inr (''https://'' @ b @ ''.s3.'' @ env_or (AWS_REGION env) ''us-east-1''
                                 @ ''.amazonaws.com/'' @ encodeURIComponent env keyName),
                          w'))))
      else (Inr (''file://'' @ localPath), w))"

subsection \<open>The manifest (lines 199-240)\<close>

record phase =
  time :: jsval
  action :: string
  effect :: string
  pos :: string
  duration :: "nat option"

record sequence_template =
  template_name :: string
  phases :: "phase list"
  template_notes :: string

record required_asset =
  name :: string
  asset_type :: string
  mime :: string
  url :: string
  localPath :: string
  size' :: nat
  etag :: string

record source_ref =
  source_provider :: string
  source_providerId :: string

record manifest =
  id' :: string
  displayName :: jsval
  version :: jsval
  manifest_license :: jsval
  source :: source_ref
  requiredAssets :: "required_asset list"
  sequenceTemplate :: "sequence_template option"
  importedAt :: string
  rawDetail :: jsval

definition manifestIdFrom :: "string \<Rightarrow> string \<Rightarrow> string" where
  "manifestIdFrom pid h = ''lottie_import_'' @ pid @ ''_'' @ h"

definition generateDefaultSequenceTemplate :: "string \<Rightarrow> sequence_template" where
  "generateDefaultSequenceTemplate effectId =
     \<lparr>template_name = effectId,
      phases =
        [\<lparr>time = JNum 0, action = ''spawn'', effect = ''lottie_charge'', pos = ''attacker'',
          duration = Some 600\<rparr>,
         \<lparr>time = JNum 600, action = ''spawn'', effect = ''lottie_projectile'',
          pos = ''towards_target'', duration = None\<rparr>,
         \<lparr>time = JStr ''onImpact'', action = ''spawn'', effect = ''lottie_impact'',
          pos = ''target'', duration = None\<rparr>],
      template_notes = ''Automatically generated template for imported Lottie. Edit in UI if you want bespoke timing.''\<rparr>"

text \<open>
  Lines 200-220.  \<^verbatim>\<open>options.generateTemplate\<close> throws when \<^verbatim>\<open>options\<close> is
  \<^verbatim>\<open>null\<close>; the detail document is not \<^verbatim>\<open>null\<close> here, \<open>locate\<close> has read it.
\<close>

definition build_manifest ::
  "env \<Rightarrow> string \<Rightarrow> jsval \<Rightarrow> jsval \<Rightarrow> processed \<Rightarrow> string \<Rightarrow> string \<Rightarrow> string \<Rightarrow> nat \<Rightarrow>
   error + manifest" where
  "build_manifest env pid detail opts p out lp remoteUrl now =
     (if nullish opts then Inl TypeError
      else
        Inr \<lparr>id' = ''lottie_import_'' @ pid @ ''_'' @ hash p,
             displayName =
               js_or (js_or (get detail ''title'') (get detail ''name'')) (JStr (''Lottie '' @ pid)),
             version = js_or (get detail ''version'') (JStr ''1''),
             manifest_license =
               js_or (js_or (js_and (get detail ''license'') (get (get detail ''license'') ''name''))
                        (get detail ''license''))
                 (JStr ''unknown''),
             source = \<lparr>source_provider = ''lottiefiles'', source_providerId = pid\<rparr>,
             requiredAssets =
               [\<lparr>name = out, asset_type = ''lottie'', mime = ''application/json'',
                 url = remoteUrl, localPath = lp, size' = length (gz p), etag = hash p\<rparr>],
             sequenceTemplate =
               (if truthy (get opts ''generateTemplate'')
                then Some (generateDefaultSequenceTemplate (manifestIdFrom pid (hash p)))
                else None),
             importedAt = toISOString env now,
             rawDetail = detail\<rparr>)"

subsection \<open>The import (lines 103-223)\<close>

text \<open>Line 109.\<close>

definition detailUrl :: "env \<Rightarrow> string \<Rightarrow> string" where
  "detailUrl env pid = LOTTIE_BASE env @ ''/animations/'' @ encodeURIComponent env pid"

text \<open>
  Lines 150-222, from the downloaded bytes on: validate and minify, gzip and hash,
  write the local cache file, upload, build the manifest.
\<close>

definition ingest ::
  "env \<Rightarrow> string \<Rightarrow> jsval \<Rightarrow> jsval \<Rightarrow> string \<Rightarrow> 'z world_scheme \<Rightarrow>
   (error + manifest) \<times> 'z world_scheme" where
  "ingest env pid opts detail animBuffer w =
     (case process_payload env animBuffer of
        Inl e \<Rightarrow> (Inl e, w)
      | Inr p \<Rightarrow>
          (case store_local env (outName pid (hash p)) (gz p) w of
             (Inl e, w3) \<Rightarrow> (Inl e, w3)
           | (Inr lp, w3) \<Rightarrow>
               (case upload env opts (outName pid (hash p)) (gz p) lp w3 of
                  (Inl e, w4) \<Rightarrow> (Inl e, w4)
                | (Inr remoteUrl, w4) \<Rightarrow>
                    (build_manifest env pid detail opts p (outName pid (hash p)) lp remoteUrl
                       (clock w4),
                     w4))))"

text \<open>
  \<^verbatim>\<open>async function importLottieAnimation(providerId, options = {})\<close>: the
  credential check, the detail request (lines 108-117), the locator, the download, and
  the rest.
\<close>

definition importLottieAnimation ::
  "env \<Rightarrow> string \<Rightarrow> jsval \<Rightarrow> 'z world_scheme \<Rightarrow> (error + manifest) \<times> 'z world_scheme" where
  "importLottieAnimation env pid options w =
     (let opts = default_param options (JObj []) in
      if \<not> env_truthy (LOTTIE_API_KEY env) then (Inl ConfigurationError, w)
      else
        (case retry (fetch env (detailUrl env pid)) 3 300 w of
           (Inl e, w1) \<Rightarrow> (Inl e, w1)
         | (Inr detailRes, w1) \<Rightarrow>
             if \<not> ok detailRes
             then (Inl (DetailFetchFailed (status detailRes) (body detailRes)), w1)
             else
               (case JSON_parse env (body detailRes) of
                  Inl msg \<Rightarrow> (Inl (InvalidJSON msg), w1)
                | Inr detail \<Rightarrow>
                    (case locate detail of
                       Inl e \<Rightarrow> (Inl e, w1)
                     | Inr urls \<Rightarrow>
                         (case pick_jsonUrl urls of
                            Inl e \<Rightarrow> (Inl e, w1)
                          | Inr jsonUrl \<Rightarrow>
                              (case download env jsonUrl w1 of
                                 (Inl e, w2) \<Rightarrow> (Inl e, w2)
                               | (Inr animBuffer, w2) \<Rightarrow>
                                   ingest env pid opts detail animBuffer w2))))))"

section \<open>A sample configuration\<close>

text \<open>
  A small instance of the environment, on which the theorems below are exercised: a
  provider that knows the animation \<^verbatim>\<open>abc123\<close> (also under the spelling
  \<^verbatim>\<open>ABC123\<close>) and answers the search for \<^verbatim>\<open>fire\<close> with two bare items, a parser
  and a serializer that know the documents involved, a stand-in for gzip, a digest of
  forty hex digits, POSIX path joining without normalisation, and percent-encoding of
  bytes as \<^verbatim>\<open>encodeURIComponent\<close> does it.
\<close>

definition detail_doc :: string where
  \<open>detail_doc = ''{"title": "Fire", "files": {"json": {"url": "https://x/a.json"}}}''\<close>

definition search_doc :: string where
  \<open>search_doc = ''{"data": [{}, {}]}''\<close>

definition example_parse :: "string \<Rightarrow> string + jsval" where
  "example_parse s =
     (if s = detail_doc
      then Inr (JObj [(''title'', JStr ''Fire''),
                      (''files'', JObj [(''json'', JObj [(''url'', JStr ''https://x/a.json'')])])])
      else if s = search_doc then Inr (JObj [(''data'', JArr [JObj [], JObj []])])
      else if s = ''[1, 2]'' \<or> s = ''[1,2]'' then Inr (JArr [JNum 1, JNum 2])
      else Inl ''Unexpected token'')"

definition example_stringify :: "jsval \<Rightarrow> string" where
  "example_stringify v = (if v = JArr [JNum 1, JNum 2] then ''[1,2]'' else ''null'')"

definition example_network :: "nat \<Rightarrow> string \<Rightarrow> fetch_outcome" where
  "example_network n u =
     (if u = ''https://api.lottiefiles.com/v2/animations/abc123'' then Responds 200 detail_doc
      else if u = ''https://api.lottiefiles.com/v2/animations/ABC123'' then Responds 200 detail_doc
      else if u = ''https://x/a.json'' then Responds 200 ''[1, 2]''
      else if u = ''https://api.lottiefiles.com/v2/animations?query=fire&page=1&per_page=24''
      then Responds 200 search_doc
      else Responds 404 ''Not Found'')"

definition failing_network :: "nat \<Rightarrow> string \<Rightarrow> fetch_outcome" where
  "failing_network n u = Responds 500 ''Internal Server Error''"

definition flaky_network :: "nat \<Rightarrow> string \<Rightarrow> fetch_outcome" where
  "flaky_network n u = (if n < 3 then Rejects ''ECONNRESET'' else Responds 200 ''[1, 2]'')"

definition example_join :: "string list \<Rightarrow> string" where
  "example_join parts = foldr (\<lambda>p acc. if acc = [] then p else p @ ''/'' @ acc) parts []"

definition unreserved :: "char \<Rightarrow> bool" where
  "unreserved c =
     (c \<in> set ''ABCDEFGHIJKLMNOPQRSTUVWXYZabcdefghijklmnopqrstuvwxyz0123456789-_.!~*()''
      \<or> c = CHR 0x27)"

definition example_encode :: "string \<Rightarrow> string" where
  "example_encode s =
     concat (map (\<lambda>c. if unreserved c then [c]
                      else [CHR ''%'', ''0123456789ABCDEF'' ! (of_char c div 16),
                            ''0123456789ABCDEF'' ! (of_char c mod 16)]) s)"

definition example_gzip :: "string \<Rightarrow> string" where
  "example_gzip s = ''gz:'' @ s"

definition example_sha1 :: "string \<Rightarrow> string" where
  "example_sha1 s = ''da39a3ee5e6b4b0d3255bfef95601890afd80709''"

definition example_clock :: "nat \<Rightarrow> string" where
  "example_clock t = ''2024-01-01T00:00:00.000Z''"

definition always_succeeds :: "'a \<Rightarrow> string option" where
  "always_succeeds x = None"

definition example_env :: env where
  "example_env =
     \<lparr>LOTTIE_API_KEY = Some ''secret'', LOTTIE_API_BASE = None, S3_BUCKET = None,
      AWS_REGION = None, s3 = False, dirname = ''/srv'',
      encodeURIComponent = example_encode,
      JSON_parse = example_parse,
      JSON_stringify = example_stringify,
      gzip = example_gzip,
      sha1_hex = example_sha1,
      path_join = example_join,
      toISOString = example_clock,
      network = example_network,
      mkdir = always_succeeds, writeFile = always_succeeds,
      s3_send = always_succeeds, getSignedUrl = always_succeeds\<rparr>"

definition example_s3_env :: env where
  "example_s3_env = example_env\<lparr>S3_BUCKET := Some ''assets'', s3 := True\<rparr>"

definition world0 :: world where
  "world0 = \<lparr>clock = 0, requests = [], dirs = {}, files = Map.empty, objects = Map.empty\<rparr>"

section \<open>Notions used in the statements\<close>

text \<open>
  What the specification calls a URL-shaped field of a provider detail document: an
  entry of the per-format \<^verbatim>\<open>files\<close> map (a property value of the object, or an
  element when \<^verbatim>\<open>files\<close> is an array) with a \<^verbatim>\<open>url\<close> or a
  \<^verbatim>\<open>download_url\<close>, or a top-level \<^verbatim>\<open>animation_url\<close>, \<^verbatim>\<open>download_url\<close> or
  \<^verbatim>\<open>preview\<close>.  A field counts when it holds a value, that is when the value is
  truthy: the locator skips empties.  These definitions follow the specification and
  enumerate the document themselves, not through the locator's functions.
\<close>

definition holds_url :: "jsval \<Rightarrow> bool" where
  "holds_url entry = (truthy (get entry ''url'') \<or> truthy (get entry ''download_url''))"

definition has_url_field :: "jsval \<Rightarrow> bool" where
  "has_url_field detail =
     ((case get detail ''files'' of
         JObj kvs \<Rightarrow> list_ex (\<lambda>(k, entry). map_of kvs k = Some entry \<and> holds_url entry) kvs
       | JArr xs \<Rightarrow> list_ex holds_url xs
       | _ \<Rightarrow> False)
      \<or> truthy (get detail ''animation_url'')
      \<or> truthy (get detail ''download_url'')
      \<or> truthy (get detail ''preview''))"

text \<open>
  The world in which \<open>retry\<close> invokes the operation for the \<open>k\<close>-th further time
  (counting from 0), when \<open>attempt\<close> invocations have failed before and the next one
  starts in \<open>w\<close>: each earlier invocation runs, and the backoff
  \<^verbatim>\<open>delayMs * attempt\<close> is slept after it.
\<close>

primrec invocation_world ::
  "('z world_scheme \<Rightarrow> ('e + 'a) \<times> 'z world_scheme) \<Rightarrow> nat \<Rightarrow> nat \<Rightarrow> nat \<Rightarrow>
   'z world_scheme \<Rightarrow> 'z world_scheme" where
  "invocation_world fn delayMs attempt 0 w = w"
| "invocation_world fn delayMs attempt (Suc k) w =
     invocation_world fn delayMs (Suc attempt) k (sleep (delayMs * Suc attempt) (snd (fn w)))"

text \<open>The storage filenames listed by the manifest of a call; none when the call failed.\<close>

definition stored_names :: "(error + manifest) \<times> 'z world_scheme \<Rightarrow> string list" where
  "stored_names outcome =
     (case fst outcome of Inl e \<Rightarrow> [] | Inr m \<Rightarrow> map name (requiredAssets m))"

section \<open>Evaluation of the sample configuration\<close>

lemmas example_defs = example_env_def example_s3_env_def world0_def example_parse_def example_stringify_def
  example_network_def example_join_def example_encode_def unreserved_def example_gzip_def example_sha1_def
  example_clock_def always_succeeds_def detail_doc_def search_doc_def failing_network_def flaky_network_def

lemmas model_defs = importLottieAnimation_def ingest_def searchLottieFiles_def default_param_def env_truthy_def env_or_def
  LOTTIE_BASE_def DEFAULT_CACHE_DIR_def detailUrl_def search_url_def retry_def fetch_def ok_def
  locate_def candidateUrls_def push_if_def entry_urls_def new_Set_def set_add_def pick_jsonUrl_def
  ends_with_def download_def download_once_def process_payload_def outName_def store_local_def upload_def
  build_manifest_def manifestIdFrom_def generateDefaultSequenceTemplate_def js_or_def js_and_def opt_get_def
  normalize_response_def normalize_item_def sleep_def Let_def

section \<open>The retry helper: exhaustion\<close>

text \<open>
  The invocations are counted by an observation \<open>count\<close> of the world that every
  invocation of the operation raises by one and that the timer does not touch.  The
  operation need fail only on the invocations that \<open>retry\<close> makes.
\<close>

lemma retry_loop_exhausts:
  assumes "\<And>w. count (snd (fn w)) = Suc (count w)"
      and frame: "\<And>w t. count (w\<lparr>clock := t\<rparr>) = count w"
      and "int a < n"
      and "\<And>k. k < nat (n - int a) \<Longrightarrow> isl (fst (fn (invocation_world fn d a k w)))"
  shows "retry_loop fn n d a w = fn (invocation_world fn d a (nat (n - int a) - 1) w)
       \<and> count (snd (retry_loop fn n d a w)) = count w + nat (n - int a)"
  using assms(1,3,4)
proof (induction fn n d a w rule: retry_loop.induct)
  case (1 fn n d a w)
  note counting = "1.prems"(1) and lt = "1.prems"(2) and fails = "1.prems"(3)
  from lt have "0 < nat (n - int a)"
    by simp
  from fails [OF this] obtain e w' where step: "fn w = (Inl e, w')"
    by (cases "fn w") (auto simp: isl_def)
  have cw': "count w' = Suc (count w)"
    using counting [of w] step by simp
  show ?case
  proof (cases "n \<le> int (Suc a)")
    case True
    with lt have one: "nat (n - int a) = 1"
      by simp
    have "retry_loop fn n d a w = (Inl e, w')"
      using step True by simp
    with step cw' one show ?thesis
      by simp
  next
    case False
    let ?w = "sleep (d * Suc a) w'"
    have lt': "int (Suc a) < n"
      using False by simp
    have fails': "isl (fst (fn (invocation_world fn d (Suc a) k ?w)))"
      if "k < nat (n - int (Suc a))" for k
    proof -
      from that have "Suc k < nat (n - int a)"
        by simp
      from fails [OF this] show ?thesis
        using step by simp
    qed
    have ih: "retry_loop fn n d (Suc a) ?w
                = fn (invocation_world fn d (Suc a) (nat (n - int (Suc a)) - 1) ?w)
            \<and> count (snd (retry_loop fn n d (Suc a) ?w)) = count ?w + nat (n - int (Suc a))"
      using "1.IH" [OF step [symmetric] refl False counting lt' fails'] .
    have unfold: "retry_loop fn n d a w = retry_loop fn n d (Suc a) ?w"
      using step False by simp
    have cw: "count ?w = Suc (count w)"
      using cw' frame by (simp add: sleep_def)
    have idx: "nat (n - int a) - 1 = Suc (nat (n - int (Suc a)) - 1)"
      using False by simp
    have iw: "invocation_world fn d a (nat (n - int a) - 1) w
            = invocation_world fn d (Suc a) (nat (n - int (Suc a)) - 1) ?w"
      unfolding idx using step by simp
    have total: "Suc (count w) + nat (n - int (Suc a)) = count w + nat (n - int a)"
      using False by simp
    have "retry_loop fn n d a w = fn (invocation_world fn d a (nat (n - int a) - 1) w)"
      unfolding unfold iw using ih by (rule conjunct1)
    moreover have "count (snd (retry_loop fn n d a w)) = count w + nat (n - int a)"
      by (simp only: unfold ih [THEN conjunct2] cw total)
    ultimately show ?thesis
      by (rule conjI)
  qed
qed

text \<open>
  C3.  For a maximum attempt count of at least 1: if the operation fails on every
  invocation that \<open>retry\<close> makes, then it is invoked exactly \<open>times\<close> times, and
  what \<open>retry\<close> throws is the very result of the last of them - the error (and world)
  that the operation returned when it ran for the \<open>times\<close>-th time, unwrapped.
\<close>

theorem retry_exhaustion:
  assumes "1 \<le> times'"
      and fails: "\<And>k. k < nat times' \<Longrightarrow> isl (fst (fn (invocation_world fn delayMs 0 k w)))"
      and counting: "\<And>w. count (snd (fn w)) = Suc (count w)"
      and frame: "\<And>w t. count (w\<lparr>clock := t\<rparr>) = count w"
  shows "\<exists>e w'. retry fn times' delayMs w = (Inl e, w')
           \<and> fn (invocation_world fn delayMs 0 (nat times' - 1) w) = (Inl e, w')
           \<and> count w' = count w + nat times'"
proof -
  have lt: "int 0 < times'"
    using assms(1) by simp
  have fails0: "\<And>k. k < nat (times' - int 0) \<Longrightarrow> isl (fst (fn (invocation_world fn delayMs 0 k w)))"
    using fails by simp
  note loop = retry_loop_exhausts [of count fn 0 times' delayMs w, OF counting frame lt fails0]
  have last: "retry fn times' delayMs w = fn (invocation_world fn delayMs 0 (nat times' - 1) w)"
    using loop [THEN conjunct1] by (simp add: retry_def del: retry_loop.simps)
  have n: "count (snd (retry fn times' delayMs w)) = count w + nat times'"
    using loop [THEN conjunct2] by (simp add: retry_def del: retry_loop.simps)
  have "nat times' - 1 < nat times'"
    using assms(1) by simp
  from fails [OF this] obtain e w' where
    "fn (invocation_world fn delayMs 0 (nat times' - 1) w) = (Inl e, w')"
    by (cases "fn (invocation_world fn delayMs 0 (nat times' - 1) w)") (auto simp: isl_def)
  with last n show ?thesis
    by simp
qed

lemma fetch_counts_requests:
  "length (requests (snd (fetch env u w))) = Suc (length (requests w))"
  by (simp add: fetch_def split: fetch_outcome.splits)

lemma invocation_world_requests:
  "length (requests (invocation_world (fetch env u) d a k w)) = length (requests w) + k"
  by (induction k arbitrary: a w) (simp_all add: fetch_counts_requests sleep_def)

theorem retry_exhaustion_witness:
  "(1::int) \<le> 3
   \<and> (\<exists>e w'.
        retry (fetch (example_env\<lparr>network := flaky_network\<rparr>) ''https://x/a.json'') 3 300 world0
          = (Inl e, w')
      \<and> e = FetchError ''ECONNRESET''
      \<and> length (requests w') = 3
      \<and> fst (fetch (example_env\<lparr>network := flaky_network\<rparr>) ''https://x/a.json'' w')
          = Inr \<lparr>status = 200, body = ''[1, 2]''\<rparr>)"
proof -
  let ?env = "example_env\<lparr>network := flaky_network\<rparr>"
  let ?fn = "fetch ?env ''https://x/a.json'' :: world \<Rightarrow> (error + response) \<times> world"
  have fails: "isl (fst (?fn (invocation_world ?fn 300 0 k world0)))" if "k < nat 3" for k
  proof -
    have "length (requests (invocation_world ?fn 300 0 k world0)) = k"
      by (simp add: invocation_world_requests world0_def)
    with that show ?thesis
      by (simp add: fetch_def example_env_def flaky_network_def)
  qed
  have counting: "\<And>w. length (requests (snd (?fn w))) = Suc (length (requests w))"
    by (rule fetch_counts_requests)
  have frame: "\<And>(w :: world) t. length (requests (w\<lparr>clock := t\<rparr>)) = length (requests w)"
    by simp
  from retry_exhaustion [of 3 ?fn 300 world0 "\<lambda>w. length (requests w)", OF _ fails counting frame]
  obtain e w' where r: "retry ?fn 3 300 world0 = (Inl e, w')"
    and last: "?fn (invocation_world ?fn 300 0 (nat 3 - 1) world0) = (Inl e, w')"
    and n: "length (requests w') = 3"
    by (auto simp: world0_def)
  have "length (requests (invocation_world ?fn 300 0 (nat 3 - 1) world0)) = 2"
    by (simp add: invocation_world_requests world0_def)
  with last have e: "e = FetchError ''ECONNRESET''"
    by (auto simp: fetch_def example_env_def flaky_network_def)
  have "fst (?fn w') = Inr \<lparr>status = 200, body = ''[1, 2]''\<rparr>"
    using n by (simp add: fetch_def example_env_def flaky_network_def)
  with r e n show ?thesis
    by simp
qed

section \<open>Provider requests and HTTP error statuses\<close>

lemma small_digits: "digits (Suc 0) = ''1''" "digits 24 = ''24''"
  by code_simp+

lemma default_page_strings:
  "show_int 1 = ''1''" "show_int 24 = ''24''"
  by (simp_all add: show_int_def show_nat_def small_digits del: digits.simps)

lemma retry_returns_first_success:
  "fn w = (Inr v, w') \<Longrightarrow> retry fn times' delayMs w = (Inr v, w')"
  by (simp add: retry_def)

lemma fetch_responds:
  "network env (length (requests w)) u = Responds st b \<Longrightarrow>
     fetch env u w = (Inr \<lparr>status = st, body = b\<rparr>, w\<lparr>requests := requests w @ [u]\<rparr>)"
  by (simp add: fetch_def)

text \<open>
  C1 (what the code does).  With the credential configured, when the provider answers
  the first search or detail request with a status outside 200-299, the call fails at
  once with that status and body: the world records exactly one request and the clock
  has not moved, so nothing was retried and no backoff was taken.  The status check
  stands after \<open>retry\<close> has returned, and \<open>fetch\<close> does not reject on an HTTP error.
\<close>

theorem provider_error_status_not_retried:
  assumes key: "env_truthy (LOTTIE_API_KEY env)"
      and bad: "\<not> (200 \<le> st \<and> st < 300)"
  shows "(network env (length (requests w)) (search_url env q ''1'' ''24'') = Responds st b \<longrightarrow>
            searchLottieFiles env q JUndefined w
              = (Inl (SearchFailed st b),
                 w\<lparr>requests := requests w @ [search_url env q ''1'' ''24'']\<rparr>))
       \<and> (network env (length (requests w)) (detailUrl env pid) = Responds st b \<longrightarrow>
            importLottieAnimation env pid options w
              = (Inl (DetailFetchFailed st b), w\<lparr>requests := requests w @ [detailUrl env pid]\<rparr>))"
proof (intro conjI impI)
  assume "network env (length (requests w)) (search_url env q ''1'' ''24'') = Responds st b"
  then have "retry (fetch env (search_url env q ''1'' ''24'')) 3 300 w
               = (Inr \<lparr>status = st, body = b\<rparr>,
                  w\<lparr>requests := requests w @ [search_url env q ''1'' ''24'']\<rparr>)"
    by (intro retry_returns_first_success fetch_responds)
  then show "searchLottieFiles env q JUndefined w
              = (Inl (SearchFailed st b),
                 w\<lparr>requests := requests w @ [search_url env q ''1'' ''24'']\<rparr>)"
    using key bad
    by (simp add: searchLottieFiles_def default_param_def default_page_strings ok_def)
next
  assume "network env (length (requests w)) (detailUrl env pid) = Responds st b"
  then have "retry (fetch env (detailUrl env pid)) 3 300 w
               = (Inr \<lparr>status = st, body = b\<rparr>, w\<lparr>requests := requests w @ [detailUrl env pid]\<rparr>)"
    by (intro retry_returns_first_success fetch_responds)
  then show "importLottieAnimation env pid options w
              = (Inl (DetailFetchFailed st b), w\<lparr>requests := requests w @ [detailUrl env pid]\<rparr>)"
    using key bad
    by (simp add: importLottieAnimation_def ok_def)
qed

theorem provider_error_status_not_retried_witness:
  "searchLottieFiles (example_env\<lparr>network := failing_network\<rparr>) ''fire'' JUndefined world0
     = (Inl (SearchFailed 500 ''Internal Server Error''),
        world0\<lparr>requests :=
          [''https://api.lottiefiles.com/v2/animations?query=fire&page=1&per_page=24'']\<rparr>)
   \<and> importLottieAnimation (example_env\<lparr>network := failing_network\<rparr>) ''abc123'' JUndefined world0
     = (Inl (DetailFetchFailed 500 ''Internal Server Error''),
        world0\<lparr>requests := [''https://api.lottiefiles.com/v2/animations/abc123'']\<rparr>)"
  using provider_error_status_not_retried
          [of "example_env\<lparr>network := failing_network\<rparr>" 500 world0 "''fire''"
              "''Internal Server Error''" "''abc123''" JUndefined]
  by (simp add: example_defs env_truthy_def search_url_def detailUrl_def LOTTIE_BASE_def env_or_def)

text \<open>The download request, whose status check is inside the retried operation, is retried.\<close>

lemma download_retries_error_status:
  "download (example_env\<lparr>network := failing_network\<rparr>) ''https://x/a.json'' world0
     = (Inl (DownloadFailed 500),
        world0\<lparr>clock := 1200,
               requests := [''https://x/a.json'', ''https://x/a.json'', ''https://x/a.json'']\<rparr>)"
  by (simp add: download_def download_once_def retry_def fetch_def ok_def sleep_def
      example_env_def failing_network_def world0_def)

section \<open>Search normalization\<close>

text \<open>
  C4 (what the code does).  An item with no fields at all is normalized without a
  throw, and the title, license, tags, preview, duration and frames get their explicit
  defaults; the thumbnail does not: its fallback chain has no final \<^verbatim>\<open>|| null\<close>, so
  the field is \<^verbatim>\<open>undefined\<close>, which JSON serialization omits.
\<close>

theorem missing_thumbnail_is_undefined:
  "normalize_item (JObj []) =
     Inr \<lparr>provider = ''lottiefiles'', providerId = ''undefined'', title = JStr ''Lottie'',
          type' = ''lottie'', thumbnail = JUndefined, preview = JNull,
          license = JStr ''unknown'', tags = JArr [], score = JNum 1,
          meta = \<lparr>duration_ms = JNull, frames = JNull\<rparr>\<rparr>"
  by (simp add: normalize_item_def js_or_def js_and_def opt_get_def)

text \<open>
  C9.  An item object that has none of the properties \<^verbatim>\<open>id\<close>, \<^verbatim>\<open>_id\<close>,
  \<^verbatim>\<open>uid\<close>, \<^verbatim>\<open>uuid\<close> is normalized without failure, and the result's
  \<open>providerId\<close> is the string \<^verbatim>\<open>undefined\<close>.
\<close>

theorem missing_identifier_becomes_undefined:
  assumes "map_of kvs ''id'' = None" and "map_of kvs ''_id'' = None"
      and "map_of kvs ''uid'' = None" and "map_of kvs ''uuid'' = None"
  shows "\<exists>r. normalize_item (JObj kvs) = Inr r \<and> providerId r = ''undefined''"
  using assms by (simp add: normalize_item_def js_or_def)

theorem missing_identifier_becomes_undefined_witness:
  "\<exists>r. normalize_item (JObj [(''title'', JStr ''Fire'')]) = Inr r \<and> providerId r = ''undefined''"
  using missing_identifier_becomes_undefined [of "[(''title'', JStr ''Fire'')]"]
  by simp

lemma map_items_length:
  "map_items raw = Inr items \<Longrightarrow> length items = length raw"
  by (induction raw arbitrary: items) (auto split: sum.splits)

text \<open>
  C8 (as amended).  Whenever normalization succeeds, \<open>total\<close> is the provider's
  \<^verbatim>\<open>total\<close> if that is present and truthy (not 0, \<^verbatim>\<open>null\<close>, \<^verbatim>\<open>false\<close> or the
  empty string), and the number of normalized results otherwise - in particular when
  the provider omits it.  That number is the length of the provider's \<^verbatim>\<open>data\<close>
  array, and 0 when \<^verbatim>\<open>data\<close> is missing.
\<close>

theorem total_is_truthy_provider_total_or_count:
  assumes "normalize_response json q pg pp = Inr r"
  shows "total r =
           (if truthy (get json ''total'') then get json ''total''
            else JNum (int (length (results r))))
       \<and> (\<forall>raw. get json ''data'' = JArr raw \<longrightarrow> length (results r) = length raw)
       \<and> (\<not> truthy (get json ''data'') \<longrightarrow> results r = [])"
  using assms
  by (auto simp: normalize_response_def js_or_def map_items_length
      split: if_splits jsval.splits sum.splits)

theorem total_is_truthy_provider_total_or_count_witness:
  "\<exists>r. normalize_response (JObj [(''data'', JArr [JObj [], JObj []])]) ''fire'' (JNum 1) (JNum 24)
          = Inr r
      \<and> total r = JNum 2 \<and> length (results r) = 2"
proof -
  obtain r where run:
    "normalize_response (JObj [(''data'', JArr [JObj [], JObj []])]) ''fire'' (JNum 1) (JNum 24)
       = Inr r"
    by (simp add: normalize_response_def normalize_item_def js_or_def js_and_def opt_get_def)
  from total_is_truthy_provider_total_or_count [OF run] run show ?thesis
    by simp
qed

text \<open>
  C8 as stated fails when the provider supplies a total of 0 together with one item:
  the total is present, yet the response carries the observed count 1.
\<close>

theorem zero_total_replaced_counterexample:
  "normalize_response (JObj [(''data'', JArr [JObj []]), (''total'', JNum 0)])
       ''fire'' (JNum 1) (JNum 24)
     = Inr \<lparr>query = ''fire'', page = JNum 1, per_page = JNum 24, total = JNum 1,
            results =
              [\<lparr>provider = ''lottiefiles'', providerId = ''undefined'', title = JStr ''Lottie'',
                type' = ''lottie'', thumbnail = JUndefined, preview = JNull,
                license = JStr ''unknown'', tags = JArr [], score = JNum 1,
                meta = \<lparr>duration_ms = JNull, frames = JNull\<rparr>\<rparr>]\<rparr>"
  by (simp add: normalize_response_def normalize_item_def js_or_def js_and_def opt_get_def)

section \<open>Locating the asset: failure and fallback\<close>

lemma set_add_cases: "set_add acc v = acc \<or> set_add acc v = acc @ [v]"
  by (simp add: set_add_def)

lemma set_add_extends: "\<exists>ys. foldl set_add acc vs = acc @ ys"
proof (induction vs arbitrary: acc)
  case Nil
  show ?case by simp
next
  case (Cons v vs)
  obtain ys where ys: "foldl set_add (set_add acc v) vs = set_add acc v @ ys"
    using Cons.IH by blast
  from set_add_cases [of acc v] show ?case
  proof
    assume "set_add acc v = acc"
    with ys show ?thesis by simp
  next
    assume "set_add acc v = acc @ [v]"
    with ys show ?thesis by simp
  qed
qed

lemma new_Set_empty_iff: "new_Set vs = [] \<longleftrightarrow> vs = []"
proof (cases vs)
  case Nil
  then show ?thesis by (simp add: new_Set_def)
next
  case (Cons v rest)
  have "set_add [] v = [v]"
    by (simp add: set_add_def)
  moreover obtain ys where "foldl set_add [v] rest = [v] @ ys"
    using set_add_extends by blast
  ultimately show ?thesis
    using Cons by (simp add: new_Set_def)
qed

lemma set_add_subset: "set (foldl set_add acc vs) \<subseteq> set acc \<union> set vs"
proof (induction vs arbitrary: acc)
  case Nil
  show ?case by simp
next
  case (Cons v vs)
  have "set (set_add acc v) \<subseteq> insert v (set acc)"
    using set_add_cases [of acc v] by auto
  with Cons.IH [of "set_add acc v"] show ?case
    by auto
qed

lemma new_Set_subset: "set (new_Set vs) \<subseteq> set vs"
  using set_add_subset [of "[]" vs] by (simp add: new_Set_def)

lemma candidateUrls_truthy: "v \<in> set (candidateUrls detail) \<Longrightarrow> truthy v"
  by (auto simp: candidateUrls_def entry_urls_def push_if_def split: if_splits)

lemma urls_unfiltered:
  "filter truthy (new_Set (candidateUrls detail)) = new_Set (candidateUrls detail)"
  using new_Set_subset candidateUrls_truthy by (fastforce simp: filter_id_conv)

lemma falsy_no_entries: "\<not> truthy v \<Longrightarrow> entries v = []"
  by (cases v) auto

lemma entry_urls_empty_iff:
  "entry_urls entry = [] \<longleftrightarrow> \<not> (truthy entry \<and> holds_url entry)"
  by (simp add: entry_urls_def push_if_def holds_url_def)

lemma holds_url_truthy: "holds_url entry \<Longrightarrow> truthy entry"
  by (cases entry) (auto simp: holds_url_def)

lemma object_entries_hold_url_iff:
  "(\<exists>entry\<in>set (entries (JObj kvs)). truthy entry \<and> holds_url entry) \<longleftrightarrow>
     (\<exists>(k, entry)\<in>set kvs. map_of kvs k = Some entry \<and> holds_url entry)"
proof
  assume "\<exists>entry\<in>set (entries (JObj kvs)). truthy entry \<and> holds_url entry"
  then obtain k v where kv: "(k, v) \<in> set kvs" and h: "holds_url (get (JObj kvs) k)"
    by auto
  from kv have "k \<in> fst ` set kvs"
    by force
  then obtain entry where m: "map_of kvs k = Some entry"
    by (cases "map_of kvs k") (auto simp: map_of_eq_None_iff)
  then have "(k, entry) \<in> set kvs"
    by (rule map_of_SomeD)
  with m h show "\<exists>(k, entry)\<in>set kvs. map_of kvs k = Some entry \<and> holds_url entry"
    by auto
next
  assume "\<exists>(k, entry)\<in>set kvs. map_of kvs k = Some entry \<and> holds_url entry"
  then obtain k entry where kv: "(k, entry) \<in> set kvs" and m: "map_of kvs k = Some entry"
    and h: "holds_url entry"
    by auto
  from m have "get (JObj kvs) k = entry"
    by simp
  moreover from kv have "k \<in> fst ` set kvs"
    by force
  ultimately show "\<exists>entry\<in>set (entries (JObj kvs)). truthy entry \<and> holds_url entry"
    using h holds_url_truthy [OF h] by auto
qed

lemma files_urls_empty_iff:
  "(if truthy fs then concat (map entry_urls (entries fs)) else []) = [] \<longleftrightarrow>
     \<not> (case fs of
          JObj kvs \<Rightarrow> list_ex (\<lambda>(k, entry). map_of kvs k = Some entry \<and> holds_url entry) kvs
        | JArr xs \<Rightarrow> list_ex holds_url xs
        | _ \<Rightarrow> False)"
proof (cases fs)
  case (JObj kvs)
  have "concat (map entry_urls (entries (JObj kvs))) = [] \<longleftrightarrow>
          \<not> (\<exists>entry\<in>set (entries (JObj kvs)). truthy entry \<and> holds_url entry)"
    by (simp add: entry_urls_empty_iff del: entries.simps)
  with JObj show ?thesis
    by (simp add: object_entries_hold_url_iff list_ex_iff del: entries.simps)
next
  case (JArr xs)
  then show ?thesis
    using holds_url_truthy by (auto simp: entry_urls_empty_iff list_ex_iff)
next
  case (JStr str)
  then show ?thesis
    by (auto simp: entry_urls_empty_iff holds_url_def)
qed simp_all

lemma candidateUrls_empty_iff: "candidateUrls detail = [] \<longleftrightarrow> \<not> has_url_field detail"
  unfolding candidateUrls_def has_url_field_def append_is_Nil_conv files_urls_empty_iff
  by (simp add: push_if_def)

text \<open>
  C5.  For a detail document that is not \<^verbatim>\<open>null\<close>, \<open>locate\<close> fails with
  \<open>NoDownloadableAsset\<close> exactly when the document has no URL-shaped field anywhere;
  when it has one, \<open>locate\<close> returns a non-empty candidate list; a document with only
  a top-level \<^verbatim>\<open>preview\<close> URL yields exactly that one candidate, and so does a
  document with only \<^verbatim>\<open>files.json.url\<close>.
\<close>

theorem locate_fails_iff_no_url_field:
  assumes "\<not> nullish detail"
  shows "(locate detail = Inl NoDownloadableAsset \<longleftrightarrow> \<not> has_url_field detail)
       \<and> (has_url_field detail \<longrightarrow> (\<exists>urls. locate detail = Inr urls \<and> urls \<noteq> []))
       \<and> (\<forall>u. u \<noteq> [] \<longrightarrow> locate (JObj [(''preview'', JStr u)]) = Inr [JStr u])
       \<and> (\<forall>u. u \<noteq> [] \<longrightarrow>
            locate (JObj [(''files'', JObj [(''json'', JObj [(''url'', JStr u)])])])
              = Inr [JStr u])"
proof -
  have "locate detail =
          (if candidateUrls detail = [] then Inl NoDownloadableAsset
           else Inr (new_Set (candidateUrls detail)))"
    using assms by (simp add: locate_def urls_unfiltered new_Set_empty_iff)
  moreover have "\<forall>u. u \<noteq> [] \<longrightarrow> locate (JObj [(''preview'', JStr u)]) = Inr [JStr u]"
    by (simp add: locate_def candidateUrls_def push_if_def new_Set_def set_add_def)
  moreover have "\<forall>u. u \<noteq> [] \<longrightarrow>
      locate (JObj [(''files'', JObj [(''json'', JObj [(''url'', JStr u)])])]) = Inr [JStr u]"
    by (simp add: locate_def candidateUrls_def entry_urls_def push_if_def new_Set_def set_add_def)
  ultimately show ?thesis
    by (simp add: candidateUrls_empty_iff new_Set_empty_iff)
qed

theorem locate_fails_iff_no_url_field_witness:
  "\<not> nullish (JObj [(''preview'', JStr ''https://x/p'')])
   \<and> has_url_field (JObj [(''preview'', JStr ''https://x/p'')])
   \<and> locate (JObj [(''preview'', JStr ''https://x/p'')]) = Inr [JStr ''https://x/p'']
   \<and> has_url_field
        (JObj [(''title'', JStr ''Fire''),
               (''files'', JObj [(''json'', JObj [(''url'', JStr ''https://x/a.json'')])])])
   \<and> locate
        (JObj [(''title'', JStr ''Fire''),
               (''files'', JObj [(''json'', JObj [(''url'', JStr ''https://x/a.json'')])])])
       = Inr [JStr ''https://x/a.json'']
   \<and> \<not> has_url_field (JObj [(''title'', JStr ''Fire''), (''files'', JObj [(''json'', JNull)])])
   \<and> locate (JObj [(''title'', JStr ''Fire''), (''files'', JObj [(''json'', JNull)])])
       = Inl NoDownloadableAsset"
proof -
  let ?p = "JObj [(''preview'', JStr ''https://x/p'')]"
  let ?f = "JObj [(''title'', JStr ''Fire''),
               (''files'', JObj [(''json'', JObj [(''url'', JStr ''https://x/a.json'')])])]"
  let ?n = "JObj [(''title'', JStr ''Fire''), (''files'', JObj [(''json'', JNull)])]"
  have hp: "has_url_field ?p" and hf: "has_url_field ?f" and hn: "\<not> has_url_field ?n"
    by (simp_all add: has_url_field_def holds_url_def)
  have p: "locate ?p = Inr [JStr ''https://x/p'']"
    using locate_fails_iff_no_url_field [of ?p] by simp
  have n: "locate ?n = Inl NoDownloadableAsset"
    using locate_fails_iff_no_url_field [of ?n] hn by simp
  from locate_fails_iff_no_url_field [of ?f] hf
  obtain urls where "locate ?f = Inr urls" and "urls \<noteq> []"
    by auto
  moreover have "locate ?f = Inr [JStr ''https://x/a.json'']"
    by (simp add: locate_def candidateUrls_def entry_urls_def push_if_def new_Set_def set_add_def)
  ultimately show ?thesis
    using hp hf hn p n by simp
qed

section \<open>Import: what a successful call has done\<close>

lemma store_local_success:
  assumes "store_local env out data w = (Inr lp, w')"
  shows "lp = path_join env [DEFAULT_CACHE_DIR env, out] \<and> files w' lp = Some data"
  using assms by (auto simp: store_local_def Let_def split: option.splits)

lemma upload_files:
  assumes "upload env opts out data lp w = (r, w')"
  shows "files w' = files w"
  using assms
  by (auto simp: upload_def Let_def split: if_splits option.splits sum.splits)

lemma upload_objects:
  assumes "upload env opts out data lp w = (Inr remoteUrl, w')"
    and "s3 env \<and> env_truthy (S3_BUCKET env)"
  shows "map_option Body
           (objects w' (js_or (get opts ''targetS3Bucket'') (JStr (env_or (S3_BUCKET env) [])),
                        ''lottie/'' @ out)) = Some data"
  using assms
  by (auto simp: upload_def Let_def split: if_splits option.splits sum.splits)

lemma build_manifest_success:
  assumes "build_manifest env pid detail opts p out lp remoteUrl now = Inr m"
  shows "requiredAssets m =
           [\<lparr>name = out, asset_type = ''lottie'', mime = ''application/json'',
             url = remoteUrl, localPath = lp, size' = length (gz p), etag = hash p\<rparr>]"
    and "id' m = ''lottie_import_'' @ pid @ ''_'' @ hash p"
    and "sequenceTemplate m =
             (if truthy (get opts ''generateTemplate'')
              then Some (generateDefaultSequenceTemplate (manifestIdFrom pid (hash p)))
              else None)"
  using assms by (auto simp: build_manifest_def split: if_splits)

lemma process_payload_success:
  assumes "process_payload env raw = Inr p"
  shows "\<exists>parsed. JSON_parse env raw = Inr parsed \<and> minified p = JSON_stringify env parsed"
    and "gz p = gzip env (minified p)" and "hash p = take 12 (sha1_hex env (gz p))"
  using assms by (auto simp: process_payload_def split: sum.splits)

lemma ingest_success:
  assumes "ingest env pid opts detail raw w = (Inr m, w')"
  shows "\<exists>p lp remoteUrl w3.
           process_payload env raw = Inr p
         \<and> store_local env (outName pid (hash p)) (gz p) w = (Inr lp, w3)
         \<and> upload env opts (outName pid (hash p)) (gz p) lp w3 = (Inr remoteUrl, w')
         \<and> build_manifest env pid detail opts p (outName pid (hash p)) lp remoteUrl (clock w')
             = Inr m"
  using assms unfolding ingest_def
  by (auto split: sum.splits prod.splits)

lemma import_success:
  assumes "importLottieAnimation env pid options w = (Inr m, w')"
  shows "\<exists>detail raw w2. ingest env pid (default_param options (JObj [])) detail raw w2 = (Inr m, w')"
  using assms unfolding importLottieAnimation_def Let_def
  by (auto split: if_splits sum.splits prod.splits)

lemma sample_s3_import:
  "case importLottieAnimation example_s3_env ''abc123'' (JObj [(''generateTemplate'', JBool True)]) world0 of
     (Inr m, w') \<Rightarrow>
        files w' ''/srv/cache/lottie/lottie_abc123_da39a3ee5e6b.json.gz'' = Some ''gz:[1,2]''
      \<and> map_option Body (objects w' (JStr ''assets'', ''lottie/lottie_abc123_da39a3ee5e6b.json.gz''))
          = Some ''gz:[1,2]''
      \<and> map url (requiredAssets m) =
          [''https://assets.s3.us-east-1.amazonaws.com/lottie%2Flottie_abc123_da39a3ee5e6b.json.gz'']
   | (Inl e, w') \<Rightarrow> False"
  by (simp add: example_defs model_defs)

lemma sample_s3_import_etag:
  "case importLottieAnimation example_s3_env ''abc123'' (JObj [(''generateTemplate'', JBool True)]) world0 of
     (Inr m, w') \<Rightarrow> map etag (requiredAssets m) = [''da39a3ee5e6b'']
   | (Inl e, w') \<Rightarrow> False"
  by (simp add: example_defs model_defs)

lemma sample_s3_import_succeeds:
  "\<exists>m w'. importLottieAnimation example_s3_env ''abc123'' (JObj [(''generateTemplate'', JBool True)]) world0 = (Inr m, w')"
  using sample_s3_import by (auto split: prod.splits sum.splits)

lemma sample_plain_import:
  "case importLottieAnimation example_env ''abc123'' JUndefined world0 of
     (Inr m, w') \<Rightarrow>
        map name (requiredAssets m) = [''lottie_abc123_da39a3ee5e6b.json.gz'']
      \<and> sequenceTemplate m = None
   | (Inl e, w') \<Rightarrow> False"
  by (simp add: example_defs model_defs)

lemma sample_plain_import_file:
  "case importLottieAnimation example_env ''abc123'' JUndefined world0 of
     (Inr m, w') \<Rightarrow>
        map localPath (requiredAssets m) = [''/srv/cache/lottie/lottie_abc123_da39a3ee5e6b.json.gz'']
      \<and> files w' ''/srv/cache/lottie/lottie_abc123_da39a3ee5e6b.json.gz'' = Some ''gz:[1,2]''
   | (Inl e, w') \<Rightarrow> False"
  by (simp add: example_defs model_defs)

lemma sample_plain_import_succeeds:
  "\<exists>m w'. importLottieAnimation example_env ''abc123'' JUndefined world0 = (Inr m, w')"
  using sample_plain_import by (auto split: prod.splits sum.splits)

text \<open>
  C6.  After every successful import the local cache file
  \<^verbatim>\<open>lottie_{providerId}_{contentHash}.json.gz\<close> under the cache directory holds the
  compressed payload, whose hash names it, and it is the manifest's \<open>localPath\<close>.
  Nothing is assumed about the storage configuration: when the S3 backend is
  configured (and the upload has succeeded, the import being successful) the object
  \<^verbatim>\<open>lottie/{filename}\<close> holds the same bytes, and the local file is written all the
  same.
\<close>

theorem local_cache_written_on_every_import:
  assumes "importLottieAnimation env pid options w = (Inr m, w')"
  shows "\<exists>parsed data.
           data = gzip env (JSON_stringify env parsed)
         \<and> files w' (path_join env [DEFAULT_CACHE_DIR env,
                        outName pid (take 12 (sha1_hex env data))]) = Some data
         \<and> map localPath (requiredAssets m) =
             [path_join env [DEFAULT_CACHE_DIR env, outName pid (take 12 (sha1_hex env data))]]
         \<and> (s3 env \<and> env_truthy (S3_BUCKET env) \<longrightarrow>
              (\<exists>bucket. map_option Body
                  (objects w' (bucket, ''lottie/'' @ outName pid (take 12 (sha1_hex env data))))
                = Some data))"
proof -
  from import_success [OF assms] obtain detail raw w2 where
    "ingest env pid (default_param options (JObj [])) detail raw w2 = (Inr m, w')"
    by blast
  from ingest_success [OF this] obtain p lp remoteUrl w3 where
    p: "process_payload env raw = Inr p"
    and st: "store_local env (outName pid (hash p)) (gz p) w2 = (Inr lp, w3)"
    and up: "upload env (default_param options (JObj [])) (outName pid (hash p)) (gz p) lp w3
               = (Inr remoteUrl, w')"
    and bm: "build_manifest env pid detail (default_param options (JObj [])) p
               (outName pid (hash p)) lp remoteUrl (clock w') = Inr m"
    by blast
  from process_payload_success [OF p] obtain parsed where
    gz: "gz p = gzip env (JSON_stringify env parsed)" and h: "hash p = take 12 (sha1_hex env (gz p))"
    by auto
  let ?path = "path_join env [DEFAULT_CACHE_DIR env, outName pid (take 12 (sha1_hex env (gz p)))]"
  have lp: "lp = ?path" and f3: "files w3 lp = Some (gz p)"
    using store_local_success [OF st] h by auto
  have f: "files w' ?path = Some (gz p)"
    using f3 upload_files [OF up] lp by simp
  have a: "map localPath (requiredAssets m) = [?path]"
    using build_manifest_success(1) [OF bm] lp by simp
  have o: "s3 env \<and> env_truthy (S3_BUCKET env) \<longrightarrow>
      (\<exists>bucket. map_option Body
         (objects w' (bucket, ''lottie/'' @ outName pid (take 12 (sha1_hex env (gz p))))) = Some (gz p))"
  proof
    assume cfg: "s3 env \<and> env_truthy (S3_BUCKET env)"
    from upload_objects [OF up cfg] h
    show "\<exists>bucket. map_option Body
         (objects w' (bucket, ''lottie/'' @ outName pid (take 12 (sha1_hex env (gz p))))) = Some (gz p)"
      by (intro exI) simp
  qed
  from gz f a o show ?thesis
    by (intro exI [of _ parsed] exI [of _ "gz p"] conjI)
qed


theorem local_cache_written_on_every_import_witness:
  "\<exists>m w' data bucket.
      importLottieAnimation example_s3_env ''abc123'' (JObj [(''generateTemplate'', JBool True)]) world0
        = (Inr m, w')
    \<and> s3 example_s3_env \<and> env_truthy (S3_BUCKET example_s3_env)
    \<and> files w' ''/srv/cache/lottie/lottie_abc123_da39a3ee5e6b.json.gz'' = Some data
    \<and> map_option Body (objects w' (bucket, ''lottie/lottie_abc123_da39a3ee5e6b.json.gz''))
        = Some data"
proof -
  obtain m w' where run:
    "importLottieAnimation example_s3_env ''abc123'' (JObj [(''generateTemplate'', JBool True)]) world0
       = (Inr m, w')"
    using sample_s3_import_succeeds by blast
  have cfg: "s3 example_s3_env \<and> env_truthy (S3_BUCKET example_s3_env)"
    by (simp add: example_s3_env_def example_env_def env_truthy_def)
  from local_cache_written_on_every_import [OF run] cfg
  obtain data bucket where
    "files w' (path_join example_s3_env [DEFAULT_CACHE_DIR example_s3_env,
        outName ''abc123'' (take 12 (sha1_hex example_s3_env data))]) = Some data"
    "map_option Body (objects w' (bucket,
        ''lottie/'' @ outName ''abc123'' (take 12 (sha1_hex example_s3_env data)))) = Some data"
    by blast
  then have "files w' ''/srv/cache/lottie/lottie_abc123_da39a3ee5e6b.json.gz'' = Some data
      \<and> map_option Body (objects w' (bucket, ''lottie/lottie_abc123_da39a3ee5e6b.json.gz''))
          = Some data"
    by (simp add: example_s3_env_def example_env_def example_sha1_def example_join_def
        DEFAULT_CACHE_DIR_def outName_def)
  with run cfg show ?thesis
    by (intro exI [of _ m] exI [of _ w'] exI [of _ data] exI [of _ bucket]) simp
qed

text \<open>
  C7.  In the manifest of a successful import, \<open>sequenceTemplate\<close> is \<^verbatim>\<open>null\<close>
  unless the caller's \<^verbatim>\<open>generateTemplate\<close> option is truthy; then it is the fixed
  template of three phases (charge at time 0, projectile at time 600, impact at
  \<^verbatim>\<open>onImpact\<close>) whose name is the manifest's identifier
  \<^verbatim>\<open>lottie_import_{providerId}_{contentHash}\<close>.
\<close>

theorem sequence_template_only_on_opt_in:
  assumes "importLottieAnimation env pid options w = (Inr m, w')"
  shows "\<exists>h. map etag (requiredAssets m) = [h]
           \<and> id' m = ''lottie_import_'' @ pid @ ''_'' @ h
           \<and> sequenceTemplate m =
               (if truthy (get (default_param options (JObj [])) ''generateTemplate'')
                then Some \<lparr>template_name = ''lottie_import_'' @ pid @ ''_'' @ h,
                           phases =
                             [\<lparr>time = JNum 0, action = ''spawn'', effect = ''lottie_charge'',
                               pos = ''attacker'', duration = Some 600\<rparr>,
                              \<lparr>time = JNum 600, action = ''spawn'', effect = ''lottie_projectile'',
                               pos = ''towards_target'', duration = None\<rparr>,
                              \<lparr>time = JStr ''onImpact'', action = ''spawn'',
                               effect = ''lottie_impact'', pos = ''target'', duration = None\<rparr>],
                           template_notes = ''Automatically generated template for imported Lottie. Edit in UI if you want bespoke timing.''\<rparr>
                else None)"
proof -
  from import_success [OF assms] obtain detail raw w2 where
    "ingest env pid (default_param options (JObj [])) detail raw w2 = (Inr m, w')"
    by blast
  from ingest_success [OF this] obtain p lp remoteUrl where
    bm: "build_manifest env pid detail (default_param options (JObj [])) p
               (outName pid (hash p)) lp remoteUrl (clock w') = Inr m"
    by blast
  from build_manifest_success [OF bm] show ?thesis
    by (intro exI [of _ "hash p"])
       (simp add: generateDefaultSequenceTemplate_def manifestIdFrom_def)
qed

theorem sequence_template_only_on_opt_in_witness:
  "(\<exists>m w'.
      importLottieAnimation example_s3_env ''abc123'' (JObj [(''generateTemplate'', JBool True)]) world0
        = (Inr m, w')
    \<and> id' m = ''lottie_import_abc123_da39a3ee5e6b''
    \<and> map_option template_name (sequenceTemplate m) = Some ''lottie_import_abc123_da39a3ee5e6b''
    \<and> map_option (map time \<circ> phases) (sequenceTemplate m)
        = Some [JNum 0, JNum 600, JStr ''onImpact''])
   \<and> (\<exists>m w'.
      importLottieAnimation example_env ''abc123'' JUndefined world0 = (Inr m, w')
    \<and> sequenceTemplate m = None)"
proof -
  obtain m w' where run:
    "importLottieAnimation example_s3_env ''abc123'' (JObj [(''generateTemplate'', JBool True)]) world0
       = (Inr m, w')"
    using sample_s3_import_succeeds by blast
  from sequence_template_only_on_opt_in [OF run] obtain h where h:
    "map etag (requiredAssets m) = [h]" "id' m = ''lottie_import_'' @ ''abc123'' @ ''_'' @ h"
    "map_option template_name (sequenceTemplate m) = Some (''lottie_import_'' @ ''abc123'' @ ''_'' @ h)"
    "map_option (map time \<circ> phases) (sequenceTemplate m) = Some [JNum 0, JNum 600, JStr ''onImpact'']"
    by (auto simp: default_param_def)
  have "map etag (requiredAssets m) = [''da39a3ee5e6b'']"
    using sample_s3_import_etag run by simp
  with h have first: "id' m = ''lottie_import_abc123_da39a3ee5e6b''
    \<and> map_option template_name (sequenceTemplate m) = Some ''lottie_import_abc123_da39a3ee5e6b''
    \<and> map_option (map time \<circ> phases) (sequenceTemplate m)
        = Some [JNum 0, JNum 600, JStr ''onImpact'']"
    by simp
  obtain m2 w2 where run2:
    "importLottieAnimation example_env ''abc123'' JUndefined world0 = (Inr m2, w2)"
    using sample_plain_import_succeeds by blast
  from sequence_template_only_on_opt_in [OF run2] have "sequenceTemplate m2 = None"
    by (auto simp: default_param_def)
  with run run2 first show ?thesis
    by blast
qed

text \<open>
  C10.  The manifest of a successful import lists exactly one required asset.  Its
  name is the storage filename \<^verbatim>\<open>lottie_{providerId}_{etag}.json.gz\<close>, under which
  the cache file is written; its size is the length of the compressed payload (the
  gzip of the minified JSON) held by that file; its etag is the first 12 characters of
  the payload's SHA-1 hex digest, which are 12 hex digits whenever the digest function
  returns 40 hex digits.
\<close>

theorem manifest_has_single_required_asset:
  assumes "importLottieAnimation env pid options w = (Inr m, w')"
  shows "\<exists>a data parsed.
           requiredAssets m = [a]
         \<and> data = gzip env (JSON_stringify env parsed)
         \<and> name a = outName pid (etag a)
         \<and> localPath a = path_join env [DEFAULT_CACHE_DIR env, name a]
         \<and> files w' (localPath a) = Some data
         \<and> size' a = length data
         \<and> etag a = take 12 (sha1_hex env data)
         \<and> ((\<forall>b. length (sha1_hex env b) = 40
                  \<and> set (sha1_hex env b) \<subseteq> set ''0123456789abcdef'')
              \<longrightarrow> length (etag a) = 12 \<and> set (etag a) \<subseteq> set ''0123456789abcdef'')"
proof -
  from import_success [OF assms] obtain detail raw w2 where
    "ingest env pid (default_param options (JObj [])) detail raw w2 = (Inr m, w')"
    by blast
  from ingest_success [OF this] obtain p lp remoteUrl w3 where
    p: "process_payload env raw = Inr p"
    and st: "store_local env (outName pid (hash p)) (gz p) w2 = (Inr lp, w3)"
    and up: "upload env (default_param options (JObj [])) (outName pid (hash p)) (gz p) lp w3
               = (Inr remoteUrl, w')"
    and bm: "build_manifest env pid detail (default_param options (JObj [])) p
               (outName pid (hash p)) lp remoteUrl (clock w') = Inr m"
    by blast
  let ?a = "\<lparr>name = outName pid (hash p), asset_type = ''lottie'', mime = ''application/json'',
             url = remoteUrl, localPath = lp, size' = length (gz p), etag = hash p\<rparr>"
  have assets: "requiredAssets m = [?a]"
    using build_manifest_success(1) [OF bm] .
  have h: "hash p = take 12 (sha1_hex env (gz p))"
    using process_payload_success(3) [OF p] .
  obtain parsed where c: "gz p = gzip env (JSON_stringify env parsed)"
    using process_payload_success(1,2) [OF p] by auto
  have lp: "lp = path_join env [DEFAULT_CACHE_DIR env, outName pid (hash p)]"
    and f3: "files w3 lp = Some (gz p)"
    using store_local_success [OF st] by auto
  have f: "files w' lp = Some (gz p)"
    using f3 upload_files [OF up] by simp
  have hex: "(\<forall>b. length (sha1_hex env b) = 40
                  \<and> set (sha1_hex env b) \<subseteq> set ''0123456789abcdef'')
              \<longrightarrow> length (hash p) = 12 \<and> set (hash p) \<subseteq> set ''0123456789abcdef''"
  proof
    assume digest: "\<forall>b. length (sha1_hex env b) = 40
                  \<and> set (sha1_hex env b) \<subseteq> set ''0123456789abcdef''"
    then have "length (sha1_hex env (gz p)) = 40"
      and "set (sha1_hex env (gz p)) \<subseteq> set ''0123456789abcdef''"
      by blast+
    moreover have "set (take 12 (sha1_hex env (gz p))) \<subseteq> set (sha1_hex env (gz p))"
      by (rule set_take_subset)
    ultimately show "length (hash p) = 12 \<and> set (hash p) \<subseteq> set ''0123456789abcdef''"
      unfolding h by auto
  qed
  show ?thesis
  proof (intro exI [of _ ?a] exI [of _ "gz p"] exI [of _ parsed] conjI)
    show "requiredAssets m = [?a]" by (fact assets)
    show "gz p = gzip env (JSON_stringify env parsed)" by (fact c)
    show "name ?a = outName pid (etag ?a)" by simp
    show "localPath ?a = path_join env [DEFAULT_CACHE_DIR env, name ?a]" using lp by simp
    show "files w' (localPath ?a) = Some (gz p)" using f by simp
    show "size' ?a = length (gz p)" by simp
    show "etag ?a = take 12 (sha1_hex env (gz p))" using h by simp
    show "(\<forall>b. length (sha1_hex env b) = 40
                  \<and> set (sha1_hex env b) \<subseteq> set ''0123456789abcdef'')
              \<longrightarrow> length (etag ?a) = 12 \<and> set (etag ?a) \<subseteq> set ''0123456789abcdef''"
      using hex by simp
  qed
qed

theorem manifest_has_single_required_asset_witness:
  "(\<forall>b. length (sha1_hex example_env b) = 40
        \<and> set (sha1_hex example_env b) \<subseteq> set ''0123456789abcdef'')
   \<and> (\<exists>m w' a.
        importLottieAnimation example_env ''abc123'' JUndefined world0 = (Inr m, w')
      \<and> requiredAssets m = [a]
      \<and> name a = ''lottie_abc123_da39a3ee5e6b.json.gz''
      \<and> files w' (localPath a) = Some ''gz:[1,2]''
      \<and> size' a = 8
      \<and> etag a = ''da39a3ee5e6b'' \<and> length (etag a) = 12)"
proof -
  have digest: "\<forall>b. length (sha1_hex example_env b) = 40
        \<and> set (sha1_hex example_env b) \<subseteq> set ''0123456789abcdef''"
    by (simp add: example_env_def example_sha1_def)
  obtain m w' where run:
    "importLottieAnimation example_env ''abc123'' JUndefined world0 = (Inr m, w')"
    using sample_plain_import_succeeds by blast
  from manifest_has_single_required_asset [OF run] digest obtain a data where a:
    "requiredAssets m = [a]" "name a = outName ''abc123'' (etag a)"
    "files w' (localPath a) = Some data" "size' a = length data"
    "etag a = take 12 (sha1_hex example_env data)" "length (etag a) = 12"
    by blast
  have e: "etag a = ''da39a3ee5e6b''"
    using a(5) by (simp add: example_env_def example_sha1_def)
  have n: "name a = ''lottie_abc123_da39a3ee5e6b.json.gz''"
    using a(2) e by (simp add: outName_def)
  have "localPath a = ''/srv/cache/lottie/lottie_abc123_da39a3ee5e6b.json.gz''"
    using sample_plain_import_file run a(1) by simp
  moreover have "files w' ''/srv/cache/lottie/lottie_abc123_da39a3ee5e6b.json.gz'' = Some ''gz:[1,2]''"
    using sample_plain_import_file run by simp
  ultimately have d: "data = ''gz:[1,2]''"
    using a(3) by simp
  from digest run a e n d show ?thesis
    by (intro conjI exI [of _ m] exI [of _ w'] exI [of _ a]) simp_all
qed

text \<open>
  C2 (as amended).  Two imports of the same \<open>providerId\<close> whose downloaded payloads
  have the same canonical (minified) bytes produce the same storage filename, whatever
  the whitespace of the source JSON, the provider detail, the options and the world
  they run in.
\<close>

theorem same_canonical_payload_same_filename:
  assumes "ingest env pid opts1 detail1 raw1 w1 = (Inr m1, w1')"
      and "ingest env pid opts2 detail2 raw2 w2 = (Inr m2, w2')"
      and "process_payload env raw1 = Inr p1" and "process_payload env raw2 = Inr p2"
      and "minified p1 = minified p2"
  shows "map name (requiredAssets m1) = map name (requiredAssets m2)
       \<and> map name (requiredAssets m1) = [outName pid (hash p1)]"
proof -
  from ingest_success [OF assms(1)] assms(3) obtain lp1 u1 w3 where
    "build_manifest env pid detail1 opts1 p1 (outName pid (hash p1)) lp1 u1 (clock w1') = Inr m1"
    by auto
  from build_manifest_success(1) [OF this]
  have n1: "map name (requiredAssets m1) = [outName pid (hash p1)]"
    by simp
  from ingest_success [OF assms(2)] assms(4) obtain lp2 u2 where
    "build_manifest env pid detail2 opts2 p2 (outName pid (hash p2)) lp2 u2 (clock w2') = Inr m2"
    by auto
  from build_manifest_success(1) [OF this]
  have n2: "map name (requiredAssets m2) = [outName pid (hash p2)]"
    by simp
  have "hash p1 = hash p2"
    using process_payload_success(2,3) [OF assms(3)] process_payload_success(2,3) [OF assms(4)]
      assms(5)
    by simp
  with n1 n2 show ?thesis
    by simp
qed

theorem same_canonical_payload_same_filename_witness:
  "\<exists>m1 w1' m2 w2' p1 p2.
      ingest example_env ''abc123'' (JObj []) JNull ''[1, 2]'' world0 = (Inr m1, w1')
    \<and> ingest example_env ''abc123'' (JObj []) JNull ''[1,2]'' world0 = (Inr m2, w2')
    \<and> process_payload example_env ''[1, 2]'' = Inr p1
    \<and> process_payload example_env ''[1,2]'' = Inr p2
    \<and> minified p1 = minified p2
    \<and> map name (requiredAssets m1) = [''lottie_abc123_da39a3ee5e6b.json.gz'']
    \<and> map name (requiredAssets m2) = [''lottie_abc123_da39a3ee5e6b.json.gz'']"
proof -
  obtain p1 where p1: "process_payload example_env ''[1, 2]'' = Inr p1"
    and c1: "minified p1 = ''[1,2]''" and h1: "hash p1 = ''da39a3ee5e6b''"
    by (simp add: process_payload_def example_defs)
  obtain p2 where p2: "process_payload example_env ''[1,2]'' = Inr p2"
    and c2: "minified p2 = ''[1,2]''"
    by (simp add: process_payload_def example_defs)
  obtain m1 w1' where r1:
    "ingest example_env ''abc123'' (JObj []) JNull ''[1, 2]'' world0 = (Inr m1, w1')"
    by (simp add: example_defs model_defs)
  obtain m2 w2' where r2:
    "ingest example_env ''abc123'' (JObj []) JNull ''[1,2]'' world0 = (Inr m2, w2')"
    by (simp add: example_defs model_defs)
  have c: "minified p1 = minified p2"
    using c1 c2 by simp
  note same = same_canonical_payload_same_filename [OF r1 r2 p1 p2 c]
  have eq: "map name (requiredAssets m1) = map name (requiredAssets m2)"
    using same by (rule conjunct1)
  have n1: "map name (requiredAssets m1) = [outName ''abc123'' (hash p1)]"
    using same by (rule conjunct2)
  have n1': "map name (requiredAssets m1) = [''lottie_abc123_da39a3ee5e6b.json.gz'']"
    using n1 h1 by (simp add: outName_def)
  have n2': "map name (requiredAssets m2) = [''lottie_abc123_da39a3ee5e6b.json.gz'']"
    using eq [symmetric] n1' by simp
  from r1 r2 p1 p2 c n1' n2' show ?thesis
    by (intro exI [of _ m1] exI [of _ w1'] exI [of _ m2] exI [of _ w2'] exI [of _ p1]
          exI [of _ p2]) simp
qed

text \<open>
  C2 as stated fails: the filename embeds \<open>providerId\<close> as given, so two imports that
  download the same payload under identifiers differing only in case are stored under
  different names.
\<close>

theorem providerId_case_changes_filename_counterexample:
  "stored_names (importLottieAnimation example_env ''abc123'' JUndefined world0)
     = [''lottie_abc123_da39a3ee5e6b.json.gz'']
   \<and> stored_names (importLottieAnimation example_env ''ABC123'' JUndefined world0)
     = [''lottie_ABC123_da39a3ee5e6b.json.gz'']"
  by (simp add: stored_names_def example_defs model_defs)

end
